theory Spec2Isabelle
  imports Complex_Main "HOL-Library.Word"
begin

unbundle bit_operations_syntax

section \<open>Polyline decoding (services/navigationService.ts)\<close>

text \<open>
  A JavaScript string is a sequence of UTF-16 code units; \<open>charCodeAt\<close> reads one of them.
  The argument of \<open>decodePolyline\<close> may also be \<open>null\<close> (or \<open>undefined\<close>), which is
  \<open>None\<close> here.
\<close>

type_synonym jsstring = "nat list"

record coordinate =
  latitude :: real
  longitude :: real

text \<open>
  One \<open>do ... while (byte >= 0x20)\<close> loop of the source. The position \<open>index\<close> in the
  string is the list of code units still to be read. \<open>result\<close> is a 32-bit integer, as
  the operands of \<open>|=\<close>, \<open>&\<close> and \<open><<\<close> are in JavaScript, and \<open><<\<close> uses the shift
  count modulo 32. Reading past the end of the string is the \<open>throw\<close> of the source:
  \<open>None\<close>.
\<close>

fun decodeValue :: "nat \<Rightarrow> 32 word \<Rightarrow> jsstring \<Rightarrow> (32 word \<times> jsstring) option" where
  "decodeValue shift result [] = None"
| "decodeValue shift result (c # cs) =
     (let byte = int c - 63;
          result' = result OR push_bit (shift mod 32) (word_of_int byte AND 0x1f)
      in if byte \<ge> 0x20 then decodeValue (shift + 5) result' cs
         else Some (result', cs))"

text \<open>The expression \<open>(result & 1) ? ~(result >> 1) : (result >> 1)\<close>, read as a signed number.\<close>

definition deltaOf :: "32 word \<Rightarrow> int" where
  "deltaOf result =
     (if result AND 1 \<noteq> 0 then sint (NOT (signed_drop_bit 1 result))
      else sint (signed_drop_bit 1 result))"

text \<open>
  The range test of the source on \<open>Number((lat * 1e-5).toFixed(6))\<close>. The coordinates are
  real numbers here: the running sums \<open>lat\<close> and \<open>lng\<close> are integers, and a multiple of
  \<open>1e-5\<close> is not changed by rounding to six decimals. The \<open>isNaN\<close> tests of the source
  have no counterpart on real numbers.
\<close>

definition scaled :: "int \<Rightarrow> real" where
  "scaled n = real_of_int n / 100000"

definition validCoordinate :: "real \<Rightarrow> real \<Rightarrow> bool" where
  "validCoordinate lat' lng' \<longleftrightarrow> lat' \<ge> -90 \<and> lat' \<le> 90 \<and> lng' \<ge> -180 \<and> lng' \<le> 180"

text \<open>
  The body of the \<open>try\<close> block: the \<open>while (index < encoded.length)\<close> loop. It ends either
  normally or by the \<open>throw\<close>; in both cases the array \<open>coordinates\<close> built so far is what the
  function returns.
\<close>

datatype loop_exit = Completed | Thrown

function decodeLoop :: "jsstring \<Rightarrow> int \<Rightarrow> int \<Rightarrow> coordinate list \<Rightarrow> loop_exit \<times> coordinate list" where
  "decodeLoop cs lat lng coordinates =
     (if cs = [] then (Completed, coordinates)
      else case decodeValue 0 0 cs of
        None \<Rightarrow> (Thrown, coordinates)
      | Some (result1, cs1) \<Rightarrow>
          (case decodeValue 0 0 cs1 of
             None \<Rightarrow> (Thrown, coordinates)
           | Some (result2, cs2) \<Rightarrow>
               decodeLoop cs2 (lat + deltaOf result1) (lng + deltaOf result2)
                 (if validCoordinate (scaled (lat + deltaOf result1)) (scaled (lng + deltaOf result2))
                  then coordinates @ [\<lparr>latitude = scaled (lat + deltaOf result1),
                                        longitude = scaled (lng + deltaOf result2)\<rparr>]
                  else coordinates)))"
  by pat_completeness auto
termination
proof (relation "measure (\<lambda>(cs, lat, lng, coordinates). length cs)")
  show "wf (measure (\<lambda>(cs, lat, lng, coordinates). length cs))" by simp
next
  fix cs :: jsstring and lat lng :: int and coordinates :: "coordinate list"
    and x2 result1 cs1 x2a result2 cs2
  assume reads: "decodeValue 0 0 cs = Some x2" "(result1, cs1) = x2"
    "decodeValue 0 0 cs1 = Some x2a" "(result2, cs2) = x2a"
  have shorter: "length rest < length ds"
    if "decodeValue shift result ds = Some (r, rest)" for shift result ds r rest
    using that
  proof (induction ds arbitrary: shift result)
    case Nil
    then show ?case by simp
  next
    case (Cons c ds)
    show ?case
    proof (cases "int c - 63 \<ge> 0x20")
      case True
      with Cons.prems have "decodeValue (shift + 5)
          (result OR push_bit (shift mod 32) (word_of_int (int c - 63) AND 0x1f)) ds = Some (r, rest)"
        by (simp add: Let_def)
      from Cons.IH [OF this] show ?thesis by simp
    next
      case False
      with Cons.prems show ?thesis by (simp add: Let_def)
    qed
  qed
  from reads have "length cs1 < length cs" "length cs2 < length cs1"
    by (auto dest: shorter)
  then show "((cs2, lat + deltaOf result1, lng + deltaOf result2,
        if validCoordinate (scaled (lat + deltaOf result1)) (scaled (lng + deltaOf result2))
        then coordinates @ [\<lparr>latitude = scaled (lat + deltaOf result1),
                               longitude = scaled (lng + deltaOf result2)\<rparr>]
        else coordinates),
      cs, lat, lng, coordinates) \<in> measure (\<lambda>(cs, lat, lng, coordinates). length cs)"
    by simp
qed

declare decodeLoop.simps [simp del]

definition decodePolyline :: "jsstring option \<Rightarrow> coordinate list" where
  "decodePolyline encoded =
     (case encoded of
        None \<Rightarrow> []
      | Some s \<Rightarrow>
          if s = [] then []
          else (case decodeLoop s 0 0 [] of
                  (Completed, coordinates) \<Rightarrow> coordinates
                | (Thrown, coordinates) \<Rightarrow> coordinates))"

section \<open>Data model (types/navigation.ts and the state of store/navigationSlice.ts)\<close>

text \<open>
  A JavaScript \<open>number\<close> is a real number here, a value that may be \<open>null\<close> or
  \<open>undefined\<close> is an \<open>option\<close>. \<open>Location\<close> has the two fields of a decoded
  coordinate and more; its own \<open>speed\<close> and \<open>heading\<close> are \<open>location_speed\<close> and
  \<open>location_heading\<close>, since the state has fields of these names too.
\<close>

record Location = coordinate +
  accuracy :: real
  altitude :: "real option"
  location_speed :: "real option"
  location_heading :: "real option"
  latitudeDelta :: "real option"
  longitudeDelta :: "real option"

text \<open>
  The objects \<open>{ text: string; value: number }\<close> of a route and of a step; the two
  fields are \<open>text_of\<close> and \<open>value_of\<close>. The fields of a step have the prefix
  \<open>step_\<close> where a route has a field of the same name.
\<close>

record TextValue =
  text_of :: "string option"
  value_of :: real

record RouteStep =
  step_distance :: TextValue
  step_duration :: TextValue
  instruction :: string
  maneuver :: "string option"
  step_polyline :: jsstring

text \<open>
  A route as the reducers read it. The type declares \<open>distance\<close>, \<open>duration\<close>,
  \<open>steps\<close> and \<open>polyline\<close> as always present, but \<open>setSelectedRoute\<close> and
  \<open>setRoute\<close> test them at run time, so each may be missing here. The optional fields
  \<open>legsCoordinates\<close>, \<open>warnings\<close>, \<open>alternativeRoutes\<close> and \<open>eta\<close> are read by
  no reducer and are left out.
\<close>

record Route =
  distance :: "TextValue option"
  duration :: "TextValue option"
  steps :: "RouteStep list option"
  polyline :: "jsstring option"

text \<open>
  A waypoint. \<open>updateWaypointOrder\<close> can build an object that has the field \<open>order\<close>
  only (see there), so the other two fields may be missing.
\<close>

record Waypoint =
  location :: "Location option"
  name :: "string option"
  order :: real

text \<open>
  The source computes in IEEE double arithmetic. A \<open>number\<close> that comes out of
  \<open>getDistance\<close>, or is computed from such a one, may be \<open>NaN\<close>: it is \<open>Num x\<close> for
  a real number \<open>x\<close> (the rounding of a finite result is not modelled) or \<open>NaN\<close>.
  An operation with a \<open>NaN\<close> operand gives \<open>NaN\<close>, a comparison with one is false,
  and as a condition \<open>NaN\<close> is falsy, as 0 is.
\<close>

datatype number = Num real | NaN

definition num_map :: "(real \<Rightarrow> real) \<Rightarrow> number \<Rightarrow> number" where
  "num_map f x = (case x of NaN \<Rightarrow> NaN | Num v \<Rightarrow> Num (f v))"

definition num_add :: "number \<Rightarrow> number \<Rightarrow> number" where
  "num_add x y = (case (x, y) of (Num v, Num w) \<Rightarrow> Num (v + w) | _ \<Rightarrow> NaN)"

definition num_less :: "number \<Rightarrow> real \<Rightarrow> bool" where
  "num_less x t = (case x of NaN \<Rightarrow> False | Num v \<Rightarrow> v < t)"

definition num_truthy :: "number \<Rightarrow> bool" where
  "num_truthy x = (case x of NaN \<Rightarrow> False | Num v \<Rightarrow> v \<noteq> 0)"

text \<open>\<open>x || 0\<close> and \<open>Math.abs(x - y) > t\<close>.\<close>

definition or_zero :: "number \<Rightarrow> real" where
  "or_zero x = (case x of NaN \<Rightarrow> 0 | Num v \<Rightarrow> v)"

definition abs_diff_exceeds :: "number \<Rightarrow> number \<Rightarrow> real \<Rightarrow> bool" where
  "abs_diff_exceeds x y t = (case (x, y) of (Num v, Num w) \<Rightarrow> \<bar>v - w\<bar> > t | _ \<Rightarrow> False)"

text \<open>
  \<open>minDistance\<close> starts as \<open>Infinity\<close> in \<open>calculateRouteStatus\<close>, is only ever
  assigned a distance that compared less than it (so never \<open>NaN\<close>), and is what
  \<open>distanceToRoute\<close> receives.
\<close>

datatype extnum = Finite real | Infinity

definition below :: "real \<Rightarrow> extnum \<Rightarrow> bool" where
  "below d m = (case m of Infinity \<Rightarrow> True | Finite x \<Rightarrow> d < x)"

definition exceeds :: "extnum \<Rightarrow> real \<Rightarrow> bool" where
  "exceeds m t = (case m of Infinity \<Rightarrow> True | Finite x \<Rightarrow> x > t)"

text \<open>
  The result of \<open>calculateRouteStatus\<close> and the interface \<open>EtaState\<close> share the fields
  \<open>isOffRoute\<close> and \<open>distanceToRoute\<close>; they are the common part of the two records.
  The fields \<open>text\<close> and \<open>value\<close> of \<open>EtaState\<close> are \<open>eta_text\<close> and \<open>eta_value\<close>.
\<close>

record TrackingFlags =
  isOffRoute :: bool
  distanceToRoute :: extnum

record RouteStatus = TrackingFlags +
  remainingDistance :: number

record EtaState = TrackingFlags +
  timestamp :: number
  eta_text :: string
  eta_value :: number
  trafficDelay :: "number option"
  lastVoiceAnnouncement :: "real option"

datatype UpdateFrequency = Normal | Frequent

datatype CardState = Hidden | Minimized | Expanded

record NavigationState =
  currentLocation :: "Location option"
  waypoints :: "Waypoint list"
  route :: "Route option"
  alternativeRoutes :: "Route list option"
  selectedRouteIndex :: real
  loading :: bool
  error :: "string option"
  heading :: "real option"
  speed :: "real option"
  currentEta :: "EtaState option"
  lastEtaUpdate :: real
  voiceEnabled :: bool
  updateFrequency :: UpdateFrequency
  isNavigating :: bool
  isNavigationCardVisible :: bool
  cardState :: CardState
  lastRouteSwitch :: real

definition OFF_ROUTE_THRESHOLD :: real where "OFF_ROUTE_THRESHOLD = 100"
definition FREQUENT_UPDATE_DISTANCE :: real where "FREQUENT_UPDATE_DISTANCE = 5000"
definition VOICE_ANNOUNCEMENT_INTERVAL :: real where "VOICE_ANNOUNCEMENT_INTERVAL = 60000"
definition ROUTE_SWITCH_DEBOUNCE :: real where "ROUTE_SWITCH_DEBOUNCE = 500"

definition initialState :: NavigationState where
  "initialState =
     \<lparr>currentLocation = None, waypoints = [], route = None, alternativeRoutes = None,
      selectedRouteIndex = 0, loading = False, error = None, heading = None, speed = None,
      currentEta = None, lastEtaUpdate = 0, voiceEnabled = True, updateFrequency = Normal,
      isNavigating = False, isNavigationCardVisible = True, cardState = Hidden,
      lastRouteSwitch = 0\<rparr>"

text \<open>
  What a reducer reads from outside the state: the clock, the local time zone and the
  floating-point unit. \<open>updateEta\<close> reads the clock three times (in its own body, in
  \<open>formatEta\<close> and in \<open>shouldAnnounceEta\<close>); every other reducer that reads it reads
  \<open>dateNow\<close>. \<open>getHours t\<close> is \<open>new Date(t).getHours()\<close>.

  \<open>getDistance\<close> is the haversine formula of the source (its Greek names spelled out),
  \<^verbatim>\<open>
  const R = 6371e3;
  const phi1 = (lat1 * Math.PI) / 180;
  const phi2 = (lat2 * Math.PI) / 180;
  const dphi = ((lat2 - lat1) * Math.PI) / 180;
  const dlambda = ((lon2 - lon1) * Math.PI) / 180;
  const a = Math.sin(dphi / 2) * Math.sin(dphi / 2) +
    Math.cos(phi1) * Math.cos(phi2) * Math.sin(dlambda / 2) * Math.sin(dlambda / 2);
  const c = 2 * Math.atan2(Math.sqrt(a), Math.sqrt(1 - a));
  return R * c;
  \<close>
  The source does not clamp \<open>a\<close>: where rounding takes \<open>a\<close> above 1 the square root
  of \<open>1 - a\<close> is \<open>NaN\<close> and so is the result, and rounding also decides which of two
  nearly equal distances is the smaller one. What the formula returns therefore depends
  on the double arithmetic and on \<open>Math.sin\<close>, \<open>Math.cos\<close>, \<open>Math.sqrt\<close> and
  \<open>Math.atan2\<close>, which are not code of the repository: the function is a parameter, and
  every theorem holds for whatever it returns. Its result is a finite number or \<open>NaN\<close>,
  since \<open>c\<close> is \<open>NaN\<close> or lies between \<open>-2 * pi\<close> and \<open>2 * pi\<close>.
\<close>

record Env =
  dateNow :: real
  dateNowFormat :: real
  dateNowAnnounce :: real
  getHours :: "real \<Rightarrow> int"
  getDistance :: "real \<Rightarrow> real \<Rightarrow> real \<Rightarrow> real \<Rightarrow> number"

section \<open>Route tracking\<close>

text \<open>
  The first loop of \<open>calculateRouteStatus\<close>, from index \<open>i\<close> on. The test
  \<open>distance < minDistance\<close> is false for a distance that is \<open>NaN\<close>.
\<close>

function findClosest ::
  "Env \<Rightarrow> Location \<Rightarrow> coordinate list \<Rightarrow> nat \<Rightarrow> extnum \<Rightarrow> nat \<Rightarrow> extnum \<times> nat" where
  "findClosest env here coordinates i minDistance closestIndex =
     (if i < length coordinates then
        (case getDistance env (latitude here) (longitude here)
                (latitude (coordinates ! i)) (longitude (coordinates ! i)) of
           NaN \<Rightarrow> findClosest env here coordinates (i + 1) minDistance closestIndex
         | Num d \<Rightarrow>
             if below d minDistance
             then findClosest env here coordinates (i + 1) (Finite d) i
             else findClosest env here coordinates (i + 1) minDistance closestIndex)
      else (minDistance, closestIndex))"
  by pat_completeness auto
termination
  by (relation "measure (\<lambda>(env, here, coordinates, i, minDistance, closestIndex).
        length coordinates - i)") auto

declare findClosest.simps [simp del]

text \<open>The second loop, from index \<open>i\<close> on, with the sum so far.\<close>

function sumRemaining :: "Env \<Rightarrow> coordinate list \<Rightarrow> nat \<Rightarrow> number \<Rightarrow> number" where
  "sumRemaining env coordinates i remaining =
     (if i < length coordinates - 1 then
        sumRemaining env coordinates (i + 1)
          (num_add remaining
             (getDistance env (latitude (coordinates ! i)) (longitude (coordinates ! i))
                (latitude (coordinates ! (i + 1))) (longitude (coordinates ! (i + 1)))))
      else remaining)"
  by pat_completeness auto
termination
  by (relation "measure (\<lambda>(env, coordinates, i, remaining). length coordinates - 1 - i)") auto

declare sumRemaining.simps [simp del]

text \<open>
  Nothing in the \<open>try\<close> block of the source throws (\<open>decodePolyline\<close> catches its own
  \<open>throw\<close>), so the \<open>catch\<close> branch has no counterpart.
\<close>

definition calculateRouteStatus ::
  "Env \<Rightarrow> Location \<Rightarrow> jsstring option \<Rightarrow> RouteStatus option" where
  "calculateRouteStatus env here encoded =
     (let coordinates = decodePolyline encoded in
      if length coordinates < 2 then None
      else
        (case findClosest env here coordinates 0 Infinity 0 of
           (minDistance, closestIndex) \<Rightarrow>
             Some \<lparr>isOffRoute = exceeds minDistance OFF_ROUTE_THRESHOLD,
                   distanceToRoute = minDistance,
                   remainingDistance = sumRemaining env coordinates closestIndex (Num 0)\<rparr>))"

section \<open>ETA estimation and the announcement policy\<close>

text \<open>\<open>Math.round\<close> rounds a half up.\<close>

definition jsRound :: "real \<Rightarrow> int" where
  "jsRound x = \<lfloor>x + 1 / 2\<rfloor>"

text \<open>
  A number inside a template string. Every number printed by \<open>formatEta\<close> is a whole
  number of minutes or hours, at least 1 in the branch that prints it, so decimal
  digits are all there is (JavaScript switches to exponent notation from \<open>1e21\<close> on).
\<close>

function showNat :: "nat \<Rightarrow> string" where
  "showNat n =
     (if n < 10 then [char_of (48 + n)]
      else showNat (n div 10) @ [char_of (48 + n mod 10)])"
  by pat_completeness auto
termination
  by (relation "measure (\<lambda>n. n)") auto

declare showNat.simps [simp del]

definition getTrafficDelay :: "Env \<Rightarrow> number \<Rightarrow> real \<Rightarrow> number" where
  "getTrafficDelay env meters t =
     (let hour = getHours env t;
          isRushHour = ((hour \<ge> 7 \<and> hour \<le> 9) \<or> (hour \<ge> 16 \<and> hour \<le> 18))
      in if isRushHour then num_map (\<lambda>m. (m * 0.2) / 50) meters else Num 0)"

text \<open>
  \<open>formatEta\<close>; \<open>now\<close> is its reading of the clock. For a timestamp that is \<open>NaN\<close>
  both comparisons of \<open>minutes\<close> are false and the last branch prints \<open>NaN\<close> twice.
\<close>

definition formatEta :: "real \<Rightarrow> number \<Rightarrow> number option \<Rightarrow> string" where
  "formatEta now t delay =
     (let etaText =
            (case t of
               NaN \<Rightarrow> ''Arriving in NaNh NaNm''
             | Num ts \<Rightarrow>
                 (let diff = ts - now;
                      minutes = jsRound (diff / 60000)
                  in if minutes < 1 then ''Arriving now''
                     else if minutes < 60 then ''Arriving in '' @ showNat (nat minutes) @ '' min''
                     else ''Arriving in '' @ showNat (nat (minutes div 60)) @ ''h '' @
                          showNat (nat (minutes mod 60)) @ ''m''))
      in case delay of
           Some (Num d) \<Rightarrow>
             if d > 300
             then etaText @ '' ('' @ showNat (nat (jsRound (d / 60))) @ '' min delay due to traffic)''
             else etaText
         | _ \<Rightarrow> etaText)"

text \<open>
  \<open>shouldAnnounceEta\<close>; \<open>now\<close> is its reading of the clock. \<open>x || 0\<close> is 0 for a
  missing \<open>x\<close>, and a delay counts in \<open>trafficChanged\<close> when it is there and truthy.
\<close>

definition shouldAnnounceEta :: "real \<Rightarrow> EtaState option \<Rightarrow> EtaState \<Rightarrow> bool" where
  "shouldAnnounceEta now previous newEta =
     (case previous of
        None \<Rightarrow> True
      | Some current \<Rightarrow>
          if now - (case lastVoiceAnnouncement current of None \<Rightarrow> 0 | Some t \<Rightarrow> t)
               < VOICE_ANNOUNCEMENT_INTERVAL
          then False
          else
            (let etaChanged = abs_diff_exceeds (eta_value current) (eta_value newEta) 300;
                 wentOffRoute = (\<not> isOffRoute current \<and> isOffRoute newEta);
                 trafficChanged =
                   (case (trafficDelay current, trafficDelay newEta) of
                      (Some d1, Some d2) \<Rightarrow>
                        num_truthy d1 \<and> num_truthy d2 \<and> abs_diff_exceeds d1 d2 300
                    | _ \<Rightarrow> False)
             in etaChanged \<or> wentOffRoute \<or> trafficChanged))"

text \<open>
  The reducer \<open>updateEta\<close>. \<open>!state.speed\<close> holds for a missing speed and for 0 (and
  for a speed that is \<open>NaN\<close>, which \<open>None\<close> stands for as well). \<open>announceEta\<close> only
  speaks: it changes neither \<open>newEta\<close> nor the state, and is not a part of the result.
\<close>

definition updateEta :: "Env \<Rightarrow> NavigationState \<Rightarrow> NavigationState" where
  "updateEta env state =
     (case route state of
        None \<Rightarrow> state
      | Some r \<Rightarrow>
     (case currentLocation state of
        None \<Rightarrow> state
      | Some here \<Rightarrow>
     (case speed state of
        None \<Rightarrow> state
      | Some v \<Rightarrow>
          if v = 0 then state
          else
            (let now = dateNow env;
                 updateInterval = (if updateFrequency state = Frequent then 10000 else 30000)
             in if now - lastEtaUpdate state < updateInterval then state
                else
                  (case calculateRouteStatus env here (polyline r) of
                     None \<Rightarrow> state
                   | Some routeStatus \<Rightarrow>
                       (let remaining = remainingDistance routeStatus;
                            state1 = (if num_less remaining FREQUENT_UPDATE_DISTANCE
                                      then state\<lparr>updateFrequency := Frequent\<rparr> else state);
                            speedMph = v * 2.237;
                            baseTimeSeconds = num_map (\<lambda>m. (m / speedMph) * 3600) remaining;
                            delay = getTrafficDelay env remaining now;
                            totalTimeSeconds = num_map (\<lambda>b. b + or_zero delay) baseTimeSeconds;
                            etaTimestamp = num_map (\<lambda>s. now + s * 1000) totalTimeSeconds;
                            newEta =
                              \<lparr>isOffRoute = isOffRoute routeStatus,
                               distanceToRoute = distanceToRoute routeStatus,
                               timestamp = etaTimestamp,
                               eta_text = formatEta (dateNowFormat env) etaTimestamp (Some delay),
                               eta_value = totalTimeSeconds,
                               trafficDelay = Some delay,
                               lastVoiceAnnouncement =
                                 (case currentEta state of
                                    None \<Rightarrow> None
                                  | Some current \<Rightarrow> lastVoiceAnnouncement current)\<rparr>;
                            announced =
                              (if voiceEnabled state \<and>
                                  shouldAnnounceEta (dateNowAnnounce env) (currentEta state) newEta
                               then newEta\<lparr>lastVoiceAnnouncement := Some now\<rparr>
                               else newEta)
                        in state1\<lparr>currentEta := Some announced, lastEtaUpdate := now\<rparr>))))))"

section \<open>The other reducers of the slice\<close>

definition setCurrentLocation :: "Location \<Rightarrow> NavigationState \<Rightarrow> NavigationState" where
  "setCurrentLocation payload state = state\<lparr>currentLocation := Some payload\<rparr>"

text \<open>\<open>Array.prototype.sort\<close> is stable, as \<open>sort_key\<close> is.\<close>

definition addWaypoint :: "Waypoint \<Rightarrow> NavigationState \<Rightarrow> NavigationState" where
  "addWaypoint payload state = state\<lparr>waypoints := sort_key order (waypoints state @ [payload])\<rparr>"

definition reorder :: "Waypoint list \<Rightarrow> Waypoint list" where
  "reorder wps = map (\<lambda>(i, wp). wp\<lparr>order := real i\<rparr>) (enumerate 0 wps)"

definition removeWaypoint :: "real \<Rightarrow> NavigationState \<Rightarrow> NavigationState" where
  "removeWaypoint payload state =
     (let kept = reorder (filter (\<lambda>wp. order wp \<noteq> payload) (waypoints state));
          state1 = state\<lparr>waypoints := kept\<rparr>
      in if length kept = 0
         then state1\<lparr>route := None, alternativeRoutes := None, selectedRouteIndex := 0\<rparr>
         else state1)"

text \<open>
  The start position of \<open>Array.prototype.splice\<close>, for the whole numbers that the
  payload of \<open>updateWaypointOrder\<close> holds: a negative one counts from the end, and both
  ends clamp. When the index \<open>from\<close> is out of range nothing is removed,
  \<open>movedWaypoint\<close> is \<open>undefined\<close>, and \<open>{ ...undefined, order: index }\<close> is an object
  with the field \<open>order\<close> only.
\<close>

definition spliceStart :: "int \<Rightarrow> nat \<Rightarrow> nat" where
  "spliceStart start len = (if start < 0 then nat (max (int len + start) 0) else min (nat start) len)"

definition updateWaypointOrder :: "int \<Rightarrow> int \<Rightarrow> NavigationState \<Rightarrow> NavigationState" where
  "updateWaypointOrder fromIndex toIndex state =
     (let wps = waypoints state;
          i = spliceStart fromIndex (length wps);
          movedWaypoint = (case drop i wps of
                             [] \<Rightarrow> \<lparr>location = None, name = None, order = 0\<rparr>
                           | wp # _ \<Rightarrow> wp);
          rest = take i wps @ drop (i + 1) wps;
          j = spliceStart toIndex (length rest)
      in state\<lparr>waypoints := reorder (take j rest @ [movedWaypoint] @ drop j rest)\<rparr>)"

definition clearWaypoints :: "NavigationState \<Rightarrow> NavigationState" where
  "clearWaypoints state =
     state\<lparr>waypoints := [], route := None, alternativeRoutes := None, selectedRouteIndex := 0\<rparr>"

text \<open>A string is truthy when it is there and not empty; an array when it is there.\<close>

definition nonEmpty :: "'a list option \<Rightarrow> bool" where
  "nonEmpty s = (case s of None \<Rightarrow> False | Some cs \<Rightarrow> cs \<noteq> [])"

definition setRoute :: "Route option \<Rightarrow> NavigationState \<Rightarrow> NavigationState" where
  "setRoute payload state =
     (let state1 = state\<lparr>route := payload, selectedRouteIndex := 0\<rparr>
      in case payload of
           None \<Rightarrow> state1
         | Some r \<Rightarrow>
             if nonEmpty (polyline r) \<and> steps r \<noteq> None
             then state1\<lparr>isNavigationCardVisible := True, cardState := Expanded\<rparr>
             else state1)"

definition setAlternativeRoutes :: "Route list \<Rightarrow> NavigationState \<Rightarrow> NavigationState" where
  "setAlternativeRoutes payload state = state\<lparr>alternativeRoutes := Some payload\<rparr>"

text \<open>
  \<open>setSelectedRoute\<close>. The local array \<open>routes\<close> is \<open>availableRoutes\<close>. Each early
  \<open>return\<close> follows a \<open>console.error\<close> with its own message; the message is the first
  component of the result, \<open>None\<close> when the selection went through. \<open>routes[index]\<close> is
  \<open>undefined\<close> for an index in range that is not a whole number. \<open>x?.text\<close> is falsy when
  \<open>x\<close> or its text is missing or the text is empty. The payload is a number, which
  \<open>Number\<close> returns as it is; the \<open>isNaN\<close> test has no counterpart on real numbers.
  Nothing in the \<open>try\<close> block throws.
\<close>

datatype Rejection =
  InvalidIndex | NoRoutes | OutOfBounds | UndefinedRoute | InvalidRouteData | InvalidMetrics

definition availableRoutes :: "NavigationState \<Rightarrow> Route list" where
  "availableRoutes state =
     (case alternativeRoutes state of
        Some alternatives \<Rightarrow>
          (case route state of Some r \<Rightarrow> r # alternatives | None \<Rightarrow> alternatives)
      | None \<Rightarrow> (case route state of Some r \<Rightarrow> [r] | None \<Rightarrow> []))"

definition textPresent :: "TextValue option \<Rightarrow> bool" where
  "textPresent tv = (case tv of None \<Rightarrow> False | Some t \<Rightarrow> nonEmpty (text_of t))"

definition setSelectedRoute :: "Env \<Rightarrow> real \<Rightarrow> NavigationState \<Rightarrow> Rejection option \<times> NavigationState" where
  "setSelectedRoute env index state =
     (let routes = availableRoutes state in
      if index < 0 then (Some InvalidIndex, state)
      else if routes = [] then (Some NoRoutes, state)
      else if index \<ge> real (length routes) then (Some OutOfBounds, state)
      else if real_of_int \<lfloor>index\<rfloor> \<noteq> index then (Some UndefinedRoute, state)
      else
        (let selectedRoute = routes ! nat \<lfloor>index\<rfloor> in
         if \<not> nonEmpty (polyline selectedRoute) \<or> steps selectedRoute = None
         then (Some InvalidRouteData, state)
         else if \<not> textPresent (distance selectedRoute) \<or> \<not> textPresent (duration selectedRoute)
         then (Some InvalidMetrics, state)
         else (None, state\<lparr>selectedRouteIndex := index, lastRouteSwitch := dateNow env\<rparr>)))"

definition setLoading :: "bool \<Rightarrow> NavigationState \<Rightarrow> NavigationState" where
  "setLoading payload state = state\<lparr>loading := payload\<rparr>"

definition setError :: "string option \<Rightarrow> NavigationState \<Rightarrow> NavigationState" where
  "setError payload state = state\<lparr>error := payload\<rparr>"

definition setHeading :: "real option \<Rightarrow> NavigationState \<Rightarrow> NavigationState" where
  "setHeading payload state = state\<lparr>heading := payload\<rparr>"

definition setSpeed :: "real option \<Rightarrow> NavigationState \<Rightarrow> NavigationState" where
  "setSpeed payload state = state\<lparr>speed := payload\<rparr>"

definition clearNavigation :: "NavigationState \<Rightarrow> NavigationState" where
  "clearNavigation state =
     state\<lparr>waypoints := [], route := None, alternativeRoutes := None, selectedRouteIndex := 0,
           error := None\<rparr>"

definition setCurrentEta :: "Env \<Rightarrow> EtaState \<Rightarrow> NavigationState \<Rightarrow> NavigationState" where
  "setCurrentEta env payload state = state\<lparr>currentEta := Some payload, lastEtaUpdate := dateNow env\<rparr>"

definition setVoiceEnabled :: "bool \<Rightarrow> NavigationState \<Rightarrow> NavigationState" where
  "setVoiceEnabled payload state = state\<lparr>voiceEnabled := payload\<rparr>"

definition setUpdateFrequency :: "UpdateFrequency \<Rightarrow> NavigationState \<Rightarrow> NavigationState" where
  "setUpdateFrequency payload state = state\<lparr>updateFrequency := payload\<rparr>"

definition setNavigationCardVisible :: "bool \<Rightarrow> NavigationState \<Rightarrow> NavigationState" where
  "setNavigationCardVisible payload state =
     state\<lparr>isNavigationCardVisible := payload, cardState := (if payload then Expanded else Hidden)\<rparr>"

definition setCardState :: "CardState \<Rightarrow> NavigationState \<Rightarrow> NavigationState" where
  "setCardState payload state =
     state\<lparr>cardState := payload, isNavigationCardVisible := (payload \<noteq> Hidden)\<rparr>"

text \<open>The actions of the slice and its reducer.\<close>

datatype Action =
    SetCurrentLocation Location
  | AddWaypoint Waypoint
  | RemoveWaypoint real
  | UpdateWaypointOrder int int
  | ClearWaypoints
  | SetRoute "Route option"
  | SetAlternativeRoutes "Route list"
  | SetSelectedRoute real
  | SetLoading bool
  | SetError "string option"
  | SetHeading "real option"
  | SetSpeed "real option"
  | ClearNavigation
  | SetCurrentEta EtaState
  | SetVoiceEnabled bool
  | SetUpdateFrequency UpdateFrequency
  | UpdateEta
  | SetNavigationCardVisible bool
  | SetCardState CardState

fun navigationReducer :: "Env \<Rightarrow> NavigationState \<Rightarrow> Action \<Rightarrow> NavigationState" where
  "navigationReducer env state (SetCurrentLocation payload) = setCurrentLocation payload state"
| "navigationReducer env state (AddWaypoint payload) = addWaypoint payload state"
| "navigationReducer env state (RemoveWaypoint payload) = removeWaypoint payload state"
| "navigationReducer env state (UpdateWaypointOrder fromIndex toIndex) =
     updateWaypointOrder fromIndex toIndex state"
| "navigationReducer env state ClearWaypoints = clearWaypoints state"
| "navigationReducer env state (SetRoute payload) = setRoute payload state"
| "navigationReducer env state (SetAlternativeRoutes payload) = setAlternativeRoutes payload state"
| "navigationReducer env state (SetSelectedRoute payload) = snd (setSelectedRoute env payload state)"
| "navigationReducer env state (SetLoading payload) = setLoading payload state"
| "navigationReducer env state (SetError payload) = setError payload state"
| "navigationReducer env state (SetHeading payload) = setHeading payload state"
| "navigationReducer env state (SetSpeed payload) = setSpeed payload state"
| "navigationReducer env state ClearNavigation = clearNavigation state"
| "navigationReducer env state (SetCurrentEta payload) = setCurrentEta env payload state"
| "navigationReducer env state (SetVoiceEnabled payload) = setVoiceEnabled payload state"
| "navigationReducer env state (SetUpdateFrequency payload) = setUpdateFrequency payload state"
| "navigationReducer env state UpdateEta = updateEta env state"
| "navigationReducer env state (SetNavigationCardVisible payload) = setNavigationCardVisible payload state"
| "navigationReducer env state (SetCardState payload) = setCardState payload state"

section \<open>Notions of the specification\<close>


text \<open>
  The reference definition of the route-tracking status: the distance from the current
  position to a vertex, the length of the segment that starts at vertex \<open>i\<close>, the
  vertex distances that are numbers, the sum of a list of distances, and the status.
  A vertex whose distance is \<open>NaN\<close> is passed over. When no vertex distance is a
  number, \<open>distanceToRoute\<close> is \<open>Infinity\<close>, the position is off the route and the
  closest index is 0; otherwise \<open>distanceToRoute\<close> is the least of the numbers, the
  closest index is the earliest one that has it, and \<open>isOffRoute\<close> says that it is
  greater than 100. \<open>remainingDistance\<close> is the sum of the segment lengths from the
  closest index to the last vertex.
\<close>

definition vertexDistance :: "Env \<Rightarrow> Location \<Rightarrow> coordinate \<Rightarrow> number" where
  "vertexDistance env here =
     (\<lambda>c. getDistance env (latitude here) (longitude here) (latitude c) (longitude c))"

definition segmentLength :: "Env \<Rightarrow> coordinate list \<Rightarrow> nat \<Rightarrow> number" where
  "segmentLength env path =
     (\<lambda>i. getDistance env (latitude (path ! i)) (longitude (path ! i))
            (latitude (path ! (i + 1))) (longitude (path ! (i + 1))))"

fun numbersOf :: "number list \<Rightarrow> real list" where
  "numbersOf [] = []"
| "numbersOf (Num x # ds) = x # numbersOf ds"
| "numbersOf (NaN # ds) = numbersOf ds"

fun total :: "number list \<Rightarrow> number" where
  "total [] = Num 0"
| "total (d # ds) = num_add d (total ds)"

definition referenceStatus :: "Env \<Rightarrow> Location \<Rightarrow> coordinate list \<Rightarrow> RouteStatus option" where
  "referenceStatus env here path =
     (if length path < 2 then None
      else if numbersOf (map (vertexDistance env here) path) = []
      then Some \<lparr>isOffRoute = True,
                 distanceToRoute = Infinity,
                 remainingDistance = total (map (segmentLength env path) [0 ..< length path - 1])\<rparr>
      else
        (let nearest = Min (set (numbersOf (map (vertexDistance env here) path)));
             closest = length (takeWhile (\<lambda>c. vertexDistance env here c \<noteq> Num nearest) path)
         in Some \<lparr>isOffRoute = (nearest > 100),
                  distanceToRoute = Finite nearest,
                  remainingDistance =
                    total (map (segmentLength env path) [closest ..< length path - 1])\<rparr>))"

text \<open>
  What the first loop of \<open>calculateRouteStatus\<close> has established before index \<open>i\<close>:
  either no distance so far was a number, or \<open>minDistance\<close> is the distance of vertex
  \<open>closestIndex\<close>, no number so far is less, and every number before \<open>closestIndex\<close>
  is greater.
\<close>

definition scanned :: "Env \<Rightarrow> Location \<Rightarrow> coordinate list \<Rightarrow> nat \<Rightarrow> extnum \<Rightarrow> nat \<Rightarrow> bool" where
  "scanned env here coordinates i minDistance closestIndex \<longleftrightarrow>
     (minDistance = Infinity \<and> closestIndex = 0 \<and>
      (\<forall>j < i. vertexDistance env here (coordinates ! j) = NaN)) \<or>
     (\<exists>d. minDistance = Finite d \<and> closestIndex < i \<and>
        vertexDistance env here (coordinates ! closestIndex) = Num d \<and>
        (\<forall>j < i. \<forall>x. vertexDistance env here (coordinates ! j) = Num x \<longrightarrow> d \<le> x) \<and>
        (\<forall>j < closestIndex. \<forall>x. vertexDistance env here (coordinates ! j) = Num x \<longrightarrow> d < x))"

text \<open>The invariant of the route catalog; no alternates when the array is \<open>null\<close>.\<close>

definition catalogInvariant :: "NavigationState \<Rightarrow> bool" where
  "catalogInvariant state \<longleftrightarrow>
     0 \<le> selectedRouteIndex state \<and>
     selectedRouteIndex state <
       1 + real (length (case alternativeRoutes state of
                           None \<Rightarrow> []
                         | Some alternatives \<Rightarrow> alternatives))"

section \<open>Sample data\<close>

text \<open>
  The route of the tests of the slice (its step list is empty there too), four more
  encoded paths, and states that the reducer reaches from the initial state.

  \<open>sampleDistances\<close> holds what \<open>getDistance\<close> returns in IEEE double arithmetic at the
  arguments that the examples read, to the digits that JavaScript prints; the examples
  read it nowhere else. For two equal points every term of the formula is 0. From
  (8, 0) to (-8, 180) the sum \<open>a\<close> is 1.0000000000000002, so \<open>Math.sqrt(1 - a)\<close> and the
  distance are \<open>NaN\<close>. From (0.5, 0) the vertex (0.8, 0) is at 33358.477993367625 and the
  vertex (0.2, 0) at 33358.47799336762: equally far on the sphere, not in doubles.
\<close>

definition sampleDistances :: "real \<Rightarrow> real \<Rightarrow> real \<Rightarrow> real \<Rightarrow> number" where
  "sampleDistances lat1 lon1 lat2 lon2 =
     (if lat1 = lat2 \<and> lon1 = lon2 then Num 0
      else if lat1 = 8 \<and> lon1 = 0 \<and> lat2 = - 8 \<and> lon2 = 180 then NaN
      else if lat1 = 1 / 2 \<and> lon1 = 0 \<and> lat2 = 4 / 5 \<and> lon2 = 0 then Num 33358.477993367625
      else if lat1 = 1 / 2 \<and> lon1 = 0 \<and> lat2 = 1 / 5 \<and> lon2 = 0 then Num 33358.47799336762
      else NaN)"

definition sampleEnv :: "real \<Rightarrow> Env" where
  "sampleEnv t =
     \<lparr>dateNow = t, dateNowFormat = t, dateNowAnnounce = t, getHours = (\<lambda>_. 12),
      getDistance = sampleDistances\<rparr>"

definition sampleRoute :: Route where
  "sampleRoute =
     \<lparr>distance = Some \<lparr>text_of = Some ''10 mi'', value_of = 16093\<rparr>,
      duration = Some \<lparr>text_of = Some ''20 min'', value_of = 1200\<rparr>,
      steps = Some [],
      polyline = Some (map of_char ''_p~iF~ps|U_ulLnnqC_mqNvxq`@'')\<rparr>"

text \<open>
  The paths (0, 0); (0, 0), (0, 0); (0.8, 0), (0.2, 0), (0.2, 0); and (-8, 180), (-8, 180).
\<close>

definition onePoint :: jsstring where
  "onePoint = map of_char ''??''"

definition twoEqualPoints :: jsstring where
  "twoEqualPoints = map of_char ''????''"

definition tiePath :: jsstring where
  "tiePath = map of_char ''_g{C?~dtB???''"

definition antipodalPath :: jsstring where
  "antipodalPath = map of_char ''~nyo@_gsia@??''"

definition shortRoute :: Route where
  "shortRoute = sampleRoute\<lparr>polyline := Some twoEqualPoints\<rparr>"

definition origin :: Location where
  "origin =
     \<lparr>latitude = 0, longitude = 0, accuracy = 10, altitude = None,
      location_speed = None, location_heading = None,
      latitudeDelta = None, longitudeDelta = None\<rparr>"

definition midway :: Location where
  "midway = origin\<lparr>latitude := 1 / 2\<rparr>"

definition facing :: Location where
  "facing = origin\<lparr>latitude := 8\<rparr>"

definition sampleEta :: "real \<Rightarrow> bool \<Rightarrow> real \<Rightarrow> real option \<Rightarrow> EtaState" where
  "sampleEta seconds off delay announcedAt =
     \<lparr>isOffRoute = off, distanceToRoute = Finite 0, timestamp = Num 0, eta_text = [],
      eta_value = Num seconds, trafficDelay = Some (Num delay),
      lastVoiceAnnouncement = announcedAt\<rparr>"

definition standingStill :: NavigationState where
  "standingStill =
     foldl (navigationReducer (sampleEnv 0)) initialState
       [SetCurrentLocation origin, SetRoute (Some shortRoute), SetSpeed (Some 0)]"

definition moving :: NavigationState where
  "moving =
     foldl (navigationReducer (sampleEnv 0)) initialState
       [SetCurrentLocation origin, SetRoute (Some shortRoute), SetSpeed (Some 10)]"

definition movingBackwards :: NavigationState where
  "movingBackwards =
     foldl (navigationReducer (sampleEnv 0)) initialState
       [SetCurrentLocation origin, SetRoute (Some shortRoute), SetSpeed (Some (- 1))]"

definition approaching :: NavigationState where
  "approaching =
     foldl (navigationReducer (sampleEnv 0)) initialState
       [SetCurrentLocation origin, SetRoute (Some shortRoute), SetSpeed (Some 10)]"

definition routesLoaded :: NavigationState where
  "routesLoaded =
     foldl (navigationReducer (sampleEnv 500)) initialState
       [SetRoute (Some sampleRoute), SetAlternativeRoutes [sampleRoute]]"

definition secondSelected :: NavigationState where
  "secondSelected =
     foldl (navigationReducer (sampleEnv 1000)) initialState
       [SetRoute (Some sampleRoute), SetAlternativeRoutes [sampleRoute], SetSelectedRoute 1]"

lemma standingStill_fields:
  "route standingStill = Some shortRoute" "currentLocation standingStill = Some origin"
  "speed standingStill = Some 0"
  by (simp_all add: standingStill_def initialState_def setCurrentLocation_def setRoute_def
      setSpeed_def Let_def sampleRoute_def shortRoute_def nonEmpty_def)

lemma moving_fields:
  "route moving = Some shortRoute" "currentLocation moving = Some origin"
  "speed moving = Some 10" "currentEta moving = None"
  "lastEtaUpdate moving = 0" "updateFrequency moving = Normal"
  by (simp_all add: moving_def initialState_def setCurrentLocation_def setRoute_def
      setSpeed_def Let_def sampleRoute_def shortRoute_def nonEmpty_def)

lemma movingBackwards_fields:
  "route movingBackwards = Some shortRoute" "currentLocation movingBackwards = Some origin"
  "speed movingBackwards = Some (- 1)" "currentEta movingBackwards = None"
  "lastEtaUpdate movingBackwards = 0" "updateFrequency movingBackwards = Normal"
  by (simp_all add: movingBackwards_def initialState_def setCurrentLocation_def setRoute_def
      setSpeed_def Let_def sampleRoute_def shortRoute_def nonEmpty_def)

lemma approaching_fields:
  "route approaching = Some shortRoute" "currentLocation approaching = Some origin"
  "speed approaching = Some 10" "currentEta approaching = None"
  "lastEtaUpdate approaching = 0" "updateFrequency approaching = Normal"
  by (simp_all add: approaching_def initialState_def setCurrentLocation_def setRoute_def
      setSpeed_def Let_def sampleRoute_def shortRoute_def nonEmpty_def)

lemma routesLoaded_fields:
  "availableRoutes routesLoaded = [sampleRoute, sampleRoute]"
  "selectedRouteIndex routesLoaded = 0" "lastRouteSwitch routesLoaded = 0"
  by (simp_all add: routesLoaded_def initialState_def setRoute_def setAlternativeRoutes_def
      availableRoutes_def Let_def sampleRoute_def nonEmpty_def)

lemma secondSelected_fields:
  "route secondSelected = Some sampleRoute" "alternativeRoutes secondSelected = Some [sampleRoute]"
  "selectedRouteIndex secondSelected = 1" "lastRouteSwitch secondSelected = 1000"
  by (simp_all add: secondSelected_def initialState_def setRoute_def setAlternativeRoutes_def
      setSelectedRoute_def availableRoutes_def Let_def sampleRoute_def nonEmpty_def
      textPresent_def sampleEnv_def)

lemma one_decoded: "decodePolyline (Some onePoint) = [\<lparr>latitude = 0, longitude = 0\<rparr>]"
  by code_simp

lemma short_decoded:
  "decodePolyline (Some twoEqualPoints) =
     [\<lparr>latitude = 0, longitude = 0\<rparr>, \<lparr>latitude = 0, longitude = 0\<rparr>]"
  by code_simp

lemma tie_decoded:
  "decodePolyline (Some tiePath) =
     [\<lparr>latitude = 4 / 5, longitude = 0\<rparr>, \<lparr>latitude = 1 / 5, longitude = 0\<rparr>,
      \<lparr>latitude = 1 / 5, longitude = 0\<rparr>]"
  by code_simp

lemma antipodal_decoded:
  "decodePolyline (Some antipodalPath) =
     [\<lparr>latitude = - 8, longitude = 180\<rparr>, \<lparr>latitude = - 8, longitude = 180\<rparr>]"
  by code_simp

section \<open>The decoder\<close>



lemma decodeLoop_Nil [simp]: "decodeLoop [] lat lng coordinates = (Completed, coordinates)"
  by (subst decodeLoop.simps) simp







text \<open>
  Claim C7, as stated: the reference string decodes to exactly two coordinates. It decodes
  to three.
\<close>

theorem reference_polyline_not_two_points:
  "length (decodePolyline (Some (map of_char ''_p~iF~ps|U_ulLnnqC_mqNvxq`@''))) = 3 \<and>
   decodePolyline (Some (map of_char ''_p~iF~ps|U_ulLnnqC_mqNvxq`@'')) \<noteq>
     [\<lparr>latitude = 38.5, longitude = -120.2\<rparr>, \<lparr>latitude = 40.7, longitude = -120.95\<rparr>]"
  by code_simp

text \<open>
  Claim C7, amended. The reference string decodes to exactly the three coordinates of the
  published example: (38.5, -120.2), (40.7, -120.95) and (43.252, -126.453), latitude
  before longitude, each the running sum of the decoded deltas times \<open>1e-5\<close>.
\<close>

theorem reference_polyline_decodes:
  "decodePolyline (Some (map of_char ''_p~iF~ps|U_ulLnnqC_mqNvxq`@'')) =
     [\<lparr>latitude = 38.5, longitude = -120.2\<rparr>,
      \<lparr>latitude = 40.7, longitude = -120.95\<rparr>,
      \<lparr>latitude = 43.252, longitude = -126.453\<rparr>]"
  by code_simp

section \<open>Route tracking\<close>

lemma num_add_zero [simp]: "num_add (Num 0) d = d" "num_add d (Num 0) = d"
  by (cases d; simp add: num_add_def)+

lemma num_add_assoc: "num_add (num_add a b) c = num_add a (num_add b c)"
  by (cases a; cases b; cases c; simp add: num_add_def)

lemma sumRemaining_total:
  "sumRemaining env coordinates i remaining =
     num_add remaining (total (map (segmentLength env coordinates) [i ..< length coordinates - 1]))"
proof (induction env coordinates i remaining rule: sumRemaining.induct)
  case (1 env coordinates i remaining)
  show ?case
  proof (cases "i < length coordinates - 1")
    case True
    then have "[i ..< length coordinates - 1] = i # [i + 1 ..< length coordinates - 1]"
      by (simp add: upt_conv_Cons)
    with True "1.IH" show ?thesis
      by (subst sumRemaining.simps) (simp add: segmentLength_def num_add_assoc)
  next
    case False
    then show ?thesis by (subst sumRemaining.simps) simp
  qed
qed

lemma set_numbersOf: "set (numbersOf ds) = {x. Num x \<in> set ds}"
  by (induction ds rule: numbersOf.induct) auto

lemma scanned_step_NaN:
  assumes "scanned env here coordinates i minDistance closestIndex"
    and "vertexDistance env here (coordinates ! i) = NaN"
  shows "scanned env here coordinates (i + 1) minDistance closestIndex"
proof -
  have less: "j < i \<or> j = i" if "j < i + 1" for j
    using that by linarith
  from assms(1) consider
      (none) "minDistance = Infinity" "closestIndex = 0"
        "\<forall>j < i. vertexDistance env here (coordinates ! j) = NaN"
    | (some) d where "minDistance = Finite d" "closestIndex < i"
        "vertexDistance env here (coordinates ! closestIndex) = Num d"
        "\<forall>j < i. \<forall>x. vertexDistance env here (coordinates ! j) = Num x \<longrightarrow> d \<le> x"
        "\<forall>j < closestIndex. \<forall>x. vertexDistance env here (coordinates ! j) = Num x \<longrightarrow> d < x"
    unfolding scanned_def by blast
  then show ?thesis
  proof cases
    case none
    with assms(2) less have "\<forall>j < i + 1. vertexDistance env here (coordinates ! j) = NaN"
      by blast
    with none show ?thesis unfolding scanned_def by blast
  next
    case some
    from some(4) assms(2) less
    have "\<forall>j < i + 1. \<forall>x. vertexDistance env here (coordinates ! j) = Num x \<longrightarrow> d \<le> x"
      by (metis number.distinct(1))
    moreover from some(2) have "closestIndex < i + 1" by simp
    ultimately show ?thesis using some unfolding scanned_def by blast
  qed
qed

lemma scanned_step_keep:
  assumes "scanned env here coordinates i minDistance closestIndex"
    and "vertexDistance env here (coordinates ! i) = Num y" "\<not> below y minDistance"
  shows "scanned env here coordinates (i + 1) minDistance closestIndex"
proof -
  have less: "j < i \<or> j = i" if "j < i + 1" for j
    using that by linarith
  from assms(3) obtain d where m: "minDistance = Finite d" "d \<le> y"
    by (cases minDistance) (auto simp: below_def)
  with assms(1) have inv: "closestIndex < i"
      "vertexDistance env here (coordinates ! closestIndex) = Num d"
      "\<forall>j < i. \<forall>x. vertexDistance env here (coordinates ! j) = Num x \<longrightarrow> d \<le> x"
      "\<forall>j < closestIndex. \<forall>x. vertexDistance env here (coordinates ! j) = Num x \<longrightarrow> d < x"
    unfolding scanned_def by auto
  from inv(3) assms(2) m(2) less
  have "\<forall>j < i + 1. \<forall>x. vertexDistance env here (coordinates ! j) = Num x \<longrightarrow> d \<le> x"
    by (metis number.inject)
  moreover from inv(1) have "closestIndex < i + 1" by simp
  ultimately show ?thesis using m(1) inv(2,4) unfolding scanned_def by blast
qed

lemma scanned_step_take:
  assumes "scanned env here coordinates i minDistance closestIndex"
    and "vertexDistance env here (coordinates ! i) = Num y" "below y minDistance"
  shows "scanned env here coordinates (i + 1) (Finite y) i"
proof -
  have less: "j < i \<or> j = i" if "j < i + 1" for j
    using that by linarith
  have earlier: "\<forall>j < i. \<forall>x. vertexDistance env here (coordinates ! j) = Num x \<longrightarrow> y < x"
  proof (cases minDistance)
    case Infinity
    with assms(1) have "\<forall>j < i. vertexDistance env here (coordinates ! j) = NaN"
      unfolding scanned_def by auto
    then show ?thesis by simp
  next
    case (Finite d)
    with assms(3) have "y < d" by (simp add: below_def)
    moreover from Finite assms(1)
    have "\<forall>j < i. \<forall>x. vertexDistance env here (coordinates ! j) = Num x \<longrightarrow> d \<le> x"
      unfolding scanned_def by auto
    ultimately show ?thesis by fastforce
  qed
  with assms(2) less
  have "\<forall>j < i + 1. \<forall>x. vertexDistance env here (coordinates ! j) = Num x \<longrightarrow> y \<le> x"
    by (metis less_eq_real_def number.inject)
  with earlier assms(2) show ?thesis unfolding scanned_def by auto
qed

lemma findClosest_scanned:
  assumes "i \<le> length coordinates" "scanned env here coordinates i minDistance closestIndex"
  shows "\<exists>m k. findClosest env here coordinates i minDistance closestIndex = (m, k) \<and>
           scanned env here coordinates (length coordinates) m k"
  using assms
proof (induction "length coordinates - i" arbitrary: i minDistance closestIndex)
  case 0
  then have "i = length coordinates" by simp
  with "0.prems"(2) show ?case
    by (subst findClosest.simps) simp
next
  case (Suc n)
  then have lt: "i < length coordinates" and rest: "n = length coordinates - (i + 1)"
      and le: "i + 1 \<le> length coordinates"
    by simp_all
  show ?case
  proof (cases "vertexDistance env here (coordinates ! i)")
    case NaN
    then have "findClosest env here coordinates i minDistance closestIndex =
        findClosest env here coordinates (i + 1) minDistance closestIndex"
      using lt by (subst findClosest.simps) (simp add: vertexDistance_def)
    with Suc.hyps(1) [OF rest le scanned_step_NaN [OF Suc.prems(2) NaN]] show ?thesis
      by simp
  next
    case (Num y)
    show ?thesis
    proof (cases "below y minDistance")
      case True
      with Num have "findClosest env here coordinates i minDistance closestIndex =
          findClosest env here coordinates (i + 1) (Finite y) i"
        using lt by (subst findClosest.simps) (simp add: vertexDistance_def)
      with Suc.hyps(1) [OF rest le scanned_step_take [OF Suc.prems(2) Num True]] show ?thesis
        by simp
    next
      case False
      with Num have "findClosest env here coordinates i minDistance closestIndex =
          findClosest env here coordinates (i + 1) minDistance closestIndex"
        using lt by (subst findClosest.simps) (simp add: vertexDistance_def)
      with Suc.hyps(1) [OF rest le scanned_step_keep [OF Suc.prems(2) Num False]] show ?thesis
        by simp
    qed
  qed
qed

lemma scanned_none:
  assumes "scanned env here path (length path) Infinity k"
  shows "k = 0" "numbersOf (map (vertexDistance env here) path) = []"
proof -
  from assms have k: "k = 0"
    and all: "\<forall>j < length path. vertexDistance env here (path ! j) = NaN"
    unfolding scanned_def by auto
  show "k = 0" by (rule k)
  have "set (numbersOf (map (vertexDistance env here) path)) = {}"
    using all by (auto simp: set_numbersOf in_set_conv_nth)
  then show "numbersOf (map (vertexDistance env here) path) = []" by simp
qed

lemma scanned_some:
  assumes "scanned env here path (length path) (Finite d) k"
  shows "numbersOf (map (vertexDistance env here) path) \<noteq> []"
    and "Min (set (numbersOf (map (vertexDistance env here) path))) = d"
    and "length (takeWhile (\<lambda>c. vertexDistance env here c \<noteq> Num d) path) = k"
proof -
  from assms have k: "k < length path" and at: "vertexDistance env here (path ! k) = Num d"
    and least: "\<forall>j < length path. \<forall>x. vertexDistance env here (path ! j) = Num x \<longrightarrow> d \<le> x"
    and first: "\<forall>j < k. \<forall>x. vertexDistance env here (path ! j) = Num x \<longrightarrow> d < x"
    unfolding scanned_def by auto
  have member: "d \<in> set (numbersOf (map (vertexDistance env here) path))"
  proof -
    from k have "path ! k \<in> set path" by simp
    with at have "Num d \<in> vertexDistance env here ` set path" by (metis image_eqI)
    then show ?thesis by (simp add: set_numbersOf)
  qed
  then show "numbersOf (map (vertexDistance env here) path) \<noteq> []" by auto
  show "Min (set (numbersOf (map (vertexDistance env here) path))) = d"
  proof (rule Min_eqI)
    show "finite (set (numbersOf (map (vertexDistance env here) path)))" by simp
    show "d \<le> y" if "y \<in> set (numbersOf (map (vertexDistance env here) path))" for y
      using that least by (auto simp: set_numbersOf in_set_conv_nth)
    show "d \<in> set (numbersOf (map (vertexDistance env here) path))" by (rule member)
  qed
  have "takeWhile (\<lambda>c. vertexDistance env here c \<noteq> Num d) path = take k path"
  proof (rule takeWhile_eq_take_P_nth)
    show "vertexDistance env here (path ! j) \<noteq> Num d" if "j < k" "j < length path" for j
      using that first by fastforce
    show "\<not> vertexDistance env here (path ! k) \<noteq> Num d" if "k < length path"
      using at by simp
  qed
  then show "length (takeWhile (\<lambda>c. vertexDistance env here c \<noteq> Num d) path) = k"
    using k by simp
qed

lemma calculateRouteStatus_reference:
  "calculateRouteStatus env here encoded = referenceStatus env here (decodePolyline encoded)"
proof (cases "length (decodePolyline encoded) < 2")
  case True
  then show ?thesis by (simp add: calculateRouteStatus_def referenceStatus_def)
next
  case False
  let ?path = "decodePolyline encoded"
  have start: "scanned env here ?path 0 Infinity 0"
    by (simp add: scanned_def)
  from findClosest_scanned [OF _ start] obtain m k where
    scan: "findClosest env here ?path 0 Infinity 0 = (m, k)"
    and final: "scanned env here ?path (length ?path) m k"
    by auto
  show ?thesis
  proof (cases m)
    case Infinity
    with final scanned_none [of env here ?path k] False scan show ?thesis
      by (simp add: calculateRouteStatus_def referenceStatus_def Let_def sumRemaining_total
          exceeds_def)
  next
    case (Finite d)
    with final scanned_some [of env here ?path d k] False scan show ?thesis
      by (simp add: calculateRouteStatus_def referenceStatus_def Let_def sumRemaining_total
          exceeds_def OFF_ROUTE_THRESHOLD_def)
  qed
qed

lemma short_status:
  "calculateRouteStatus (sampleEnv t) origin (polyline shortRoute) =
     Some \<lparr>isOffRoute = False, distanceToRoute = Finite 0, remainingDistance = Num 0\<rparr>"
  by (simp add: calculateRouteStatus_reference referenceStatus_def shortRoute_def short_decoded
      Let_def segmentLength_def vertexDistance_def sampleEnv_def sampleDistances_def origin_def)

text \<open>
  Claim C6, as stated: for every position and path of two or more coordinates,
  \<open>distanceToRoute\<close> is the least vertex distance. From (8, 0), both vertices of the
  path (-8, 180), (-8, 180) are at a distance that is \<open>NaN\<close>, and \<open>distanceToRoute\<close> is
  \<open>Infinity\<close>, which is the distance of no vertex.
\<close>

theorem calculateRouteStatus_nan_distance:
  "map (vertexDistance (sampleEnv 0) facing) (decodePolyline (Some antipodalPath)) = [NaN, NaN] \<and>
   calculateRouteStatus (sampleEnv 0) facing (Some antipodalPath) =
     Some \<lparr>isOffRoute = True, distanceToRoute = Infinity, remainingDistance = Num 0\<rparr>"
  by (simp add: calculateRouteStatus_reference referenceStatus_def antipodal_decoded
      Let_def segmentLength_def vertexDistance_def sampleEnv_def sampleDistances_def
      facing_def origin_def)

text \<open>
  Claim C6, amended. For every current location and every encoded path, the status that
  \<open>calculateRouteStatus\<close> computes on the decoded path is the reference status: none for
  fewer than 2 coordinates; otherwise, over the vertex distances that are numbers (a
  vertex whose distance is \<open>NaN\<close> is passed over), \<open>distanceToRoute\<close> is the least one,
  the closest index is the earliest one that has it, and \<open>isOffRoute\<close> says that it is
  greater than 100; when no vertex distance is a number, \<open>distanceToRoute\<close> is
  \<open>Infinity\<close>, the position is off the route and the closest index is 0.
  \<open>remainingDistance\<close> is the sum of the segment lengths from the closest index to the
  last vertex.
\<close>

theorem calculateRouteStatus_is_reference:
  "calculateRouteStatus env here encoded = referenceStatus env here (decodePolyline encoded)"
  by (rule calculateRouteStatus_reference)

text \<open>
  On the path (0.8, 0), (0.2, 0), (0.2, 0), seen from (0.5, 0): the second vertex is
  nearer than the first by the rounding of the doubles, the third is as near as the
  second, and the second one is taken.
\<close>

theorem calculateRouteStatus_is_reference_witness:
  "calculateRouteStatus (sampleEnv 0) origin (Some onePoint) = None \<and>
   calculateRouteStatus (sampleEnv 0) midway (Some tiePath) =
     Some \<lparr>isOffRoute = True, distanceToRoute = Finite 33358.47799336762,
           remainingDistance = Num 0\<rparr>"
proof -
  have "referenceStatus (sampleEnv 0) midway (decodePolyline (Some tiePath)) =
     Some \<lparr>isOffRoute = True, distanceToRoute = Finite 33358.47799336762,
           remainingDistance = Num 0\<rparr>"
    by (simp add: referenceStatus_def tie_decoded Let_def segmentLength_def vertexDistance_def
        sampleEnv_def sampleDistances_def midway_def origin_def)
  moreover have "referenceStatus (sampleEnv 0) origin (decodePolyline (Some onePoint)) = None"
    by (simp add: referenceStatus_def one_decoded)
  ultimately show ?thesis
    using calculateRouteStatus_is_reference [of "sampleEnv 0" origin "Some onePoint"]
      calculateRouteStatus_is_reference [of "sampleEnv 0" midway "Some tiePath"]
    by simp
qed

section \<open>The announcement policy\<close>



text \<open>
  Claim C10, as stated: with no last-announcement timestamp the floor never suppresses
  the decision. At a clock reading of 59999 the ETA has changed by 600 s and the route
  was left, and \<open>shouldAnnounceEta\<close> is false.
\<close>

theorem missing_timestamp_floor_suppresses:
  "lastVoiceAnnouncement (sampleEta 600 False 10 None) = None \<and>
   abs_diff_exceeds (eta_value (sampleEta 600 False 10 None))
     (eta_value (sampleEta 1200 True 400 None)) 300 \<and>
   \<not> isOffRoute (sampleEta 600 False 10 None) \<and> isOffRoute (sampleEta 1200 True 400 None) \<and>
   \<not> shouldAnnounceEta 59999 (Some (sampleEta 600 False 10 None)) (sampleEta 1200 True 400 None)"
  by (simp add: sampleEta_def shouldAnnounceEta_def VOICE_ANNOUNCEMENT_INTERVAL_def
      abs_diff_exceeds_def)

text \<open>
  Claim C10, amended. When the previous snapshot has no last-announcement timestamp,
  the floor compares the clock with time 0. At a clock reading of at least 60000 ms
  the floor does not apply and the decision is that of the three triggers: both ETA
  values are numbers and differ by more than 300 s, the route was left, or both traffic
  delays are there, are numbers other than 0, and differ by more than 300 s. At a clock
  reading below 60000 ms the floor applies and the decision is false.
\<close>

theorem shouldAnnounceEta_missing_timestamp:
  "(lastVoiceAnnouncement current = None \<and> 60000 \<le> now \<longrightarrow>
     shouldAnnounceEta now (Some current) newEta =
       ((\<exists>v w. eta_value current = Num v \<and> eta_value newEta = Num w \<and> \<bar>v - w\<bar> > 300) \<or>
        (\<not> isOffRoute current \<and> isOffRoute newEta) \<or>
        (\<exists>d1 d2. trafficDelay current = Some (Num d1) \<and> trafficDelay newEta = Some (Num d2) \<and>
                  d1 \<noteq> 0 \<and> d2 \<noteq> 0 \<and> \<bar>d1 - d2\<bar> > 300))) \<and>
   (lastVoiceAnnouncement current = None \<and> now < 60000 \<longrightarrow>
     \<not> shouldAnnounceEta now (Some current) newEta)"
  by (auto simp: shouldAnnounceEta_def VOICE_ANNOUNCEMENT_INTERVAL_def Let_def
      abs_diff_exceeds_def num_truthy_def split: option.splits number.splits)

theorem shouldAnnounceEta_missing_timestamp_witness:
  "lastVoiceAnnouncement (sampleEta 600 False 10 None) = None \<and>
   (60000 :: real) \<le> 1700000000000 \<and> (59999 :: real) < 60000 \<and>
   shouldAnnounceEta 1700000000000 (Some (sampleEta 600 False 10 None))
     (sampleEta 1200 False 10 None) \<and>
   \<not> shouldAnnounceEta 1700000000000 (Some (sampleEta 600 False 10 None))
       (sampleEta 700 False 10 None) \<and>
   \<not> shouldAnnounceEta 59999 (Some (sampleEta 600 False 10 None))
       (sampleEta 1200 False 10 None)"
  using shouldAnnounceEta_missing_timestamp [where current = "sampleEta 600 False 10 None"
        and now = 1700000000000 and newEta = "sampleEta 1200 False 10 None"]
    shouldAnnounceEta_missing_timestamp [where current = "sampleEta 600 False 10 None"
        and now = 1700000000000 and newEta = "sampleEta 700 False 10 None"]
    shouldAnnounceEta_missing_timestamp [where current = "sampleEta 600 False 10 None"
        and now = 59999 and newEta = "sampleEta 1200 False 10 None"]
  by (simp add: sampleEta_def)

section \<open>ETA updates\<close>

lemma updateEta_zero:
  "speed state = None \<or> speed state = Some 0 \<Longrightarrow> updateEta env state = state"
  by (auto simp: updateEta_def split: option.splits)

lemma updateEta_changes:
  assumes "updateEta env state \<noteq> state"
  shows "\<exists>v. speed state = Some v \<and> v \<noteq> 0"
  using assms by (auto simp: updateEta_def split: option.splits if_splits)

lemma updateEta_short:
  assumes "route state = Some shortRoute" "currentLocation state = Some origin"
    and "speed state = Some v" "v \<noteq> 0"
    and "\<not> dateNow (sampleEnv t) - lastEtaUpdate state
           < (if updateFrequency state = Frequent then 10000 else 30000)"
  shows "currentEta (updateEta (sampleEnv t) state) \<noteq> None"
    and "updateFrequency (updateEta (sampleEnv t) state) = Frequent"
  using assms
  by (simp_all add: updateEta_def Let_def short_status num_less_def
      FREQUENT_UPDATE_DISTANCE_def)

text \<open>
  Claim C2, as stated: no snapshot for a speed of 0 or less. With a speed of -1 m/s,
  a route and a location, \<open>updateEta\<close> stores a snapshot.
\<close>

theorem updateEta_negative_speed_emits:
  "speed movingBackwards = Some (- 1) \<and> currentEta movingBackwards = None \<and>
   currentEta (navigationReducer (sampleEnv 1700000000000) movingBackwards UpdateEta) \<noteq> None \<and>
   navigationReducer (sampleEnv 1700000000000) movingBackwards UpdateEta \<noteq> movingBackwards"
proof -
  have "currentEta (updateEta (sampleEnv 1700000000000) movingBackwards) \<noteq> None"
    by (rule updateEta_short(1) [where v = "- 1"])
      (simp_all add: movingBackwards_fields sampleEnv_def)
  then show ?thesis
    using movingBackwards_fields by auto
qed

text \<open>
  Claim C2, amended. When the speed is missing or exactly 0, \<open>updateEta\<close> produces no
  snapshot and leaves the state as it is; in particular a speed of 0 is never divided
  into: whenever \<open>updateEta\<close> changes the state, the speed is there and is not 0, and
  neither is the divisor \<open>speed * 2.237\<close>.
\<close>

theorem updateEta_rejects_zero_speed:
  "(speed state = None \<or> speed state = Some 0 \<longrightarrow> updateEta env state = state) \<and>
   (updateEta env state \<noteq> state \<longrightarrow>
      (\<exists>v. speed state = Some v \<and> v \<noteq> 0 \<and> v * 2.237 \<noteq> 0))"
  using updateEta_zero [of state env] updateEta_changes [of env state] by auto

theorem updateEta_rejects_zero_speed_witness:
  "speed standingStill = Some 0 \<and>
   updateEta (sampleEnv 1700000000000) standingStill = standingStill \<and>
   updateEta (sampleEnv 1700000000000) moving \<noteq> moving \<and>
   speed moving = Some 10"
proof -
  have "currentEta (updateEta (sampleEnv 1700000000000) moving) \<noteq> None"
    by (rule updateEta_short(1) [where v = 10]) (simp_all add: moving_fields sampleEnv_def)
  then have changed: "updateEta (sampleEnv 1700000000000) moving \<noteq> moving"
    using moving_fields(4) by auto
  from updateEta_rejects_zero_speed [where state = standingStill and env = "sampleEnv 1700000000000"]
    updateEta_rejects_zero_speed [where state = moving and env = "sampleEnv 1700000000000"]
    changed standingStill_fields(3) moving_fields(3)
  show ?thesis by auto
qed

section \<open>The update frequency\<close>

lemma updateEta_keeps_frequent:
  "updateFrequency state = Frequent \<Longrightarrow> updateFrequency (updateEta env state) = Frequent"
  by (simp add: updateEta_def Let_def split: option.splits)

lemma setSelectedRoute_frequency:
  "updateFrequency (snd (setSelectedRoute env index state)) = updateFrequency state"
  by (simp add: setSelectedRoute_def Let_def)

lemma reducer_frequency:
  assumes "action \<noteq> UpdateEta" "\<forall>m. action \<noteq> SetUpdateFrequency m"
  shows "updateFrequency (navigationReducer env state action) = updateFrequency state"
  using assms
  by (cases action)
    (simp_all add: setSelectedRoute_frequency setCurrentLocation_def addWaypoint_def
      removeWaypoint_def updateWaypointOrder_def clearWaypoints_def setRoute_def
      setAlternativeRoutes_def setLoading_def setError_def setHeading_def setSpeed_def
      clearNavigation_def setCurrentEta_def setVoiceEnabled_def setNavigationCardVisible_def
      setCardState_def Let_def split: option.splits)

lemma updateEta_frequency_change:
  assumes "updateFrequency (updateEta env state) \<noteq> updateFrequency state"
  shows "updateFrequency state = Normal \<and> updateFrequency (updateEta env state) = Frequent \<and>
     (\<exists>here r st x. currentLocation state = Some here \<and> route state = Some r \<and>
        calculateRouteStatus env here (polyline r) = Some st \<and>
        remainingDistance st = Num x \<and> x < 5000)"
proof -
  from assms updateEta_keeps_frequent [of state env] have n: "updateFrequency state = Normal"
    by (cases "updateFrequency state") auto
  with assms have f: "updateFrequency (updateEta env state) = Frequent"
    by (cases "updateFrequency (updateEta env state)") auto
  from assms have "\<exists>here r st x. currentLocation state = Some here \<and> route state = Some r \<and>
        calculateRouteStatus env here (polyline r) = Some st \<and>
        remainingDistance st = Num x \<and> x < 5000"
    by (auto simp: updateEta_def Let_def FREQUENT_UPDATE_DISTANCE_def num_less_def
        split: option.splits if_splits number.splits)
  with n f show ?thesis by blast
qed

lemma updateEta_tightens:
  assumes "route state = Some r" "currentLocation state = Some here"
    and "speed state = Some v" "v \<noteq> 0"
    and "\<not> dateNow env - lastEtaUpdate state
           < (if updateFrequency state = Frequent then 10000 else 30000)"
    and "calculateRouteStatus env here (polyline r) = Some st"
    and "remainingDistance st = Num x" "x < 5000"
  shows "updateFrequency (updateEta env state) = Frequent"
  using assms by (simp add: updateEta_def Let_def FREQUENT_UPDATE_DISTANCE_def num_less_def)

lemma approaching_tightens:
  "updateFrequency (updateEta (sampleEnv 1700000000000) approaching) = Frequent"
  by (rule updateEta_short(2) [where v = 10]) (simp_all add: approaching_fields sampleEnv_def)

text \<open>
  Claim C4, as stated: no operation that writes the mode takes it from \<open>Frequent\<close> back
  to \<open>Normal\<close>. After an update near the destination has made the mode \<open>Frequent\<close>,
  \<open>setUpdateFrequency\<close> makes it \<open>Normal\<close> again.
\<close>

theorem setUpdateFrequency_back_to_normal:
  "updateFrequency approaching = Normal \<and>
   updateFrequency (navigationReducer (sampleEnv 1700000000000) approaching UpdateEta) = Frequent \<and>
   updateFrequency
     (navigationReducer (sampleEnv 1700000040000)
        (navigationReducer (sampleEnv 1700000000000) approaching UpdateEta)
        (SetUpdateFrequency Normal)) = Normal"
  using approaching_tightens by (simp add: approaching_fields setUpdateFrequency_def)

text \<open>
  Claim C4, amended. No operation other than \<open>setUpdateFrequency\<close> takes the mode from
  \<open>Frequent\<close> back to \<open>Normal\<close>, and only \<open>updateEta\<close> and \<open>setUpdateFrequency\<close> change
  the mode at all. \<open>updateEta\<close> changes it only from \<open>Normal\<close> to \<open>Frequent\<close> and only
  when the remaining distance of the route is a number below 5000 m; an update that
  passes the guards and the cadence gate with a remaining distance below 5000 m leaves
  the mode \<open>Frequent\<close>.
\<close>

theorem updateFrequency_one_way:
  "(updateFrequency state = Frequent \<and> (\<forall>m. action \<noteq> SetUpdateFrequency m) \<longrightarrow>
      updateFrequency (navigationReducer env state action) = Frequent) \<and>
   (updateFrequency (navigationReducer env state action) \<noteq> updateFrequency state \<longrightarrow>
      action = UpdateEta \<or> (\<exists>m. action = SetUpdateFrequency m)) \<and>
   (updateFrequency (updateEta env state) \<noteq> updateFrequency state \<longrightarrow>
      updateFrequency state = Normal \<and> updateFrequency (updateEta env state) = Frequent \<and>
      (\<exists>here r st x. currentLocation state = Some here \<and> route state = Some r \<and>
         calculateRouteStatus env here (polyline r) = Some st \<and>
         remainingDistance st = Num x \<and> x < 5000)) \<and>
   (route state = Some r \<and> currentLocation state = Some here \<and>
    speed state = Some v \<and> v \<noteq> 0 \<and>
    \<not> dateNow env - lastEtaUpdate state
        < (if updateFrequency state = Frequent then 10000 else 30000) \<and>
    calculateRouteStatus env here (polyline r) = Some st \<and>
    remainingDistance st = Num x \<and> x < 5000 \<longrightarrow>
      updateFrequency (updateEta env state) = Frequent)"
proof (intro conjI impI)
  assume a: "updateFrequency state = Frequent \<and> (\<forall>m. action \<noteq> SetUpdateFrequency m)"
  show "updateFrequency (navigationReducer env state action) = Frequent"
  proof (cases "action = UpdateEta")
    case True
    with a show ?thesis by (simp add: updateEta_keeps_frequent)
  next
    case False
    with a reducer_frequency [of action env state] show ?thesis by simp
  qed
next
  assume "updateFrequency (navigationReducer env state action) \<noteq> updateFrequency state"
  then show "action = UpdateEta \<or> (\<exists>m. action = SetUpdateFrequency m)"
    using reducer_frequency [of action env state] by blast
next
  assume "updateFrequency (updateEta env state) \<noteq> updateFrequency state"
  from updateEta_frequency_change [OF this]
  show "updateFrequency state = Normal" "updateFrequency (updateEta env state) = Frequent"
    "\<exists>here r st x. currentLocation state = Some here \<and> route state = Some r \<and>
         calculateRouteStatus env here (polyline r) = Some st \<and>
         remainingDistance st = Num x \<and> x < 5000"
    by blast+
next
  assume "route state = Some r \<and> currentLocation state = Some here \<and>
    speed state = Some v \<and> v \<noteq> 0 \<and>
    \<not> dateNow env - lastEtaUpdate state
        < (if updateFrequency state = Frequent then 10000 else 30000) \<and>
    calculateRouteStatus env here (polyline r) = Some st \<and>
    remainingDistance st = Num x \<and> x < 5000"
  then show "updateFrequency (updateEta env state) = Frequent"
    using updateEta_tightens by blast
qed

theorem updateFrequency_one_way_witness:
  "updateFrequency approaching = Normal \<and>
   updateFrequency (updateEta (sampleEnv 1700000000000) approaching) = Frequent \<and>
   (\<forall>m. ClearNavigation \<noteq> SetUpdateFrequency m) \<and>
   updateFrequency (navigationReducer (sampleEnv 1700000040000)
      (updateEta (sampleEnv 1700000000000) approaching) ClearNavigation) = Frequent \<and>
   (\<exists>st x. calculateRouteStatus (sampleEnv 1700000000000) origin (polyline shortRoute) = Some st \<and>
      remainingDistance st = Num x \<and> x < 5000)"
proof -
  let ?next = "updateEta (sampleEnv 1700000000000) approaching"
  have f: "updateFrequency ?next = Frequent" by (rule approaching_tightens)
  from updateFrequency_one_way
    [where state = ?next and action = ClearNavigation and env = "sampleEnv 1700000040000"] f
  have keep: "updateFrequency
      (navigationReducer (sampleEnv 1700000040000) ?next ClearNavigation) = Frequent"
    by simp
  from updateFrequency_one_way [where state = approaching and env = "sampleEnv 1700000000000"] f
  have "\<exists>here r st x. currentLocation approaching = Some here \<and> route approaching = Some r \<and>
      calculateRouteStatus (sampleEnv 1700000000000) here (polyline r) = Some st \<and>
      remainingDistance st = Num x \<and> x < 5000"
    by (simp add: approaching_fields)
  then have "\<exists>st x. calculateRouteStatus (sampleEnv 1700000000000) origin (polyline shortRoute)
      = Some st \<and> remainingDistance st = Num x \<and> x < 5000"
    by (simp add: approaching_fields)
  with f keep show ?thesis by (simp add: approaching_fields)
qed

section \<open>The route catalog\<close>

lemma availableRoutes_length:
  "length (availableRoutes state) \<le>
     1 + length (case alternativeRoutes state of None \<Rightarrow> [] | Some alternatives \<Rightarrow> alternatives)"
  by (simp add: availableRoutes_def split: option.splits)

lemma availableRoutes_lastRouteSwitch [simp]:
  "availableRoutes (state\<lparr>lastRouteSwitch := t\<rparr>) = availableRoutes state"
  by (simp add: availableRoutes_def split: option.splits)

lemma whole_number: "real_of_int \<lfloor>x\<rfloor> = x \<longleftrightarrow> x \<in> \<int>"
  by (auto simp: Ints_def)

lemma setSelectedRoute_invariant:
  assumes "catalogInvariant state"
  shows "catalogInvariant (snd (setSelectedRoute env index state))"
proof (cases "fst (setSelectedRoute env index state)")
  case None
  then have "0 \<le> index" "index < real (length (availableRoutes state))"
      "snd (setSelectedRoute env index state) =
         state\<lparr>selectedRouteIndex := index, lastRouteSwitch := dateNow env\<rparr>"
    by (auto simp: setSelectedRoute_def Let_def split: if_splits)
  with availableRoutes_length [of state] show ?thesis
    by (simp add: catalogInvariant_def)
next
  case (Some reason)
  then have "snd (setSelectedRoute env index state) = state"
    by (auto simp: setSelectedRoute_def Let_def split: if_splits)
  with assms show ?thesis by simp
qed

lemma updateEta_catalog:
  "selectedRouteIndex (updateEta env state) = selectedRouteIndex state \<and>
   alternativeRoutes (updateEta env state) = alternativeRoutes state"
  by (simp add: updateEta_def Let_def split: option.splits)

lemma reducer_invariant:
  assumes "catalogInvariant state" "\<forall>alternatives. action \<noteq> SetAlternativeRoutes alternatives"
  shows "catalogInvariant (navigationReducer env state action)"
proof (cases action)
  case (SetSelectedRoute index)
  with assms(1) show ?thesis by (simp add: setSelectedRoute_invariant)
next
  case UpdateEta
  with assms(1) updateEta_catalog [of env state] show ?thesis
    by (simp add: catalogInvariant_def)
next
  case (SetAlternativeRoutes alternatives)
  with assms(2) show ?thesis by simp
next
  case (RemoveWaypoint payload)
  with assms(1) show ?thesis by (simp add: removeWaypoint_def catalogInvariant_def Let_def)
next
  case (SetRoute payload)
  with assms(1) show ?thesis
    by (simp add: setRoute_def catalogInvariant_def Let_def split: option.splits)
qed (use assms(1) in \<open>simp_all add: catalogInvariant_def setCurrentLocation_def addWaypoint_def
      updateWaypointOrder_def clearWaypoints_def setLoading_def setError_def setHeading_def
      setSpeed_def clearNavigation_def setCurrentEta_def setVoiceEnabled_def
      setUpdateFrequency_def setNavigationCardVisible_def setCardState_def Let_def\<close>)

text \<open>
  Claim C3, as stated: every operation preserves the invariant, \<open>setAlternativeRoutes\<close>
  among them. With the second of two routes selected, replacing the alternates by an
  empty array leaves index 1 selected in a catalog of one route.
\<close>

theorem setAlternativeRoutes_breaks_invariant:
  "catalogInvariant secondSelected \<and>
   \<not> catalogInvariant
       (navigationReducer (sampleEnv 2000) secondSelected (SetAlternativeRoutes []))"
  by (simp add: catalogInvariant_def secondSelected_fields setAlternativeRoutes_def)

text \<open>
  Claim C3, amended. The invariant \<open>0 \<le> selectedIndex < 1 + |alternates|\<close> holds in the
  initial state and is preserved by every operation other than \<open>setAlternativeRoutes\<close>.
  \<open>setAlternativeRoutes\<close> does not touch the selected index: the invariant holds after
  it exactly when the index that was selected before is less than 1 plus the number of
  the new alternates.
\<close>

theorem catalog_invariant_preserved:
  "catalogInvariant initialState \<and>
   (catalogInvariant state \<and> (\<forall>alternatives. action \<noteq> SetAlternativeRoutes alternatives) \<longrightarrow>
      catalogInvariant (navigationReducer env state action)) \<and>
   (catalogInvariant (navigationReducer env state (SetAlternativeRoutes alternatives)) \<longleftrightarrow>
      0 \<le> selectedRouteIndex state \<and> selectedRouteIndex state < 1 + real (length alternatives))"
proof -
  have "catalogInvariant initialState"
    by (simp add: catalogInvariant_def initialState_def)
  moreover have "catalogInvariant (navigationReducer env state (SetAlternativeRoutes alternatives)) \<longleftrightarrow>
      0 \<le> selectedRouteIndex state \<and> selectedRouteIndex state < 1 + real (length alternatives)"
    by (simp add: catalogInvariant_def setAlternativeRoutes_def)
  ultimately show ?thesis using reducer_invariant by blast
qed

theorem catalog_invariant_preserved_witness:
  "catalogInvariant secondSelected \<and>
   (\<forall>alternatives. ClearNavigation \<noteq> SetAlternativeRoutes alternatives) \<and>
   catalogInvariant (navigationReducer (sampleEnv 2000) secondSelected ClearNavigation) \<and>
   catalogInvariant (navigationReducer (sampleEnv 2000) secondSelected
      (SetAlternativeRoutes [sampleRoute, sampleRoute]))"
proof -
  have h: "catalogInvariant secondSelected"
    by (simp add: catalogInvariant_def secondSelected_fields)
  from catalog_invariant_preserved
    [where state = secondSelected and action = ClearNavigation and env = "sampleEnv 2000"
      and alternatives = "[sampleRoute, sampleRoute]"] h
  show ?thesis by (simp add: secondSelected_fields)
qed

text \<open>
  Claim C5, as stated: a select within 500 ms of a successful one changes nothing. The
  second route was selected at time 1000; a select of the first route at time 1100 goes
  through.
\<close>

theorem select_within_debounce_window_applied:
  "selectedRouteIndex secondSelected = 1 \<and> lastRouteSwitch secondSelected = 1000 \<and>
   dateNow (sampleEnv 1100) - lastRouteSwitch secondSelected < ROUTE_SWITCH_DEBOUNCE \<and>
   selectedRouteIndex (navigationReducer (sampleEnv 1100) secondSelected (SetSelectedRoute 0)) = 0 \<and>
   lastRouteSwitch (navigationReducer (sampleEnv 1100) secondSelected (SetSelectedRoute 0)) = 1100"
  by (simp add: secondSelected_fields setSelectedRoute_def availableRoutes_def Let_def
      sampleRoute_def nonEmpty_def textPresent_def sampleEnv_def ROUTE_SWITCH_DEBOUNCE_def)

text \<open>
  Claim C5, amended. \<open>setSelectedRoute\<close> has no debounce window: a select is not
  ignored for coming less than 500 ms after a successful one. Whether it is accepted,
  and with which message it is rejected, does not depend on \<open>lastRouteSwitch\<close>; an
  accepted select sets the selected index and \<open>lastRouteSwitch\<close> however short the
  time since the last one, and a rejected one leaves the state as it is. Nothing is
  queued and nothing is raised.
\<close>

theorem setSelectedRoute_no_debounce:
  "fst (setSelectedRoute env index (state\<lparr>lastRouteSwitch := t\<rparr>))
     = fst (setSelectedRoute env index state) \<and>
   (fst (setSelectedRoute env index state) = None \<longrightarrow>
      snd (setSelectedRoute env index (state\<lparr>lastRouteSwitch := t\<rparr>)) =
        state\<lparr>selectedRouteIndex := index, lastRouteSwitch := dateNow env\<rparr>) \<and>
   (fst (setSelectedRoute env index state) \<noteq> None \<longrightarrow>
      snd (setSelectedRoute env index (state\<lparr>lastRouteSwitch := t\<rparr>)) =
        state\<lparr>lastRouteSwitch := t\<rparr>)"
  by (simp add: setSelectedRoute_def Let_def)

theorem setSelectedRoute_no_debounce_witness:
  "fst (setSelectedRoute (sampleEnv 1100) 0 secondSelected) = None \<and>
   snd (setSelectedRoute (sampleEnv 1100) 0 (secondSelected\<lparr>lastRouteSwitch := 1099\<rparr>)) =
     secondSelected\<lparr>selectedRouteIndex := 0, lastRouteSwitch := 1100\<rparr>"
proof -
  have h: "fst (setSelectedRoute (sampleEnv 1100) 0 secondSelected) = None"
    by (simp add: secondSelected_fields setSelectedRoute_def availableRoutes_def Let_def
      sampleRoute_def nonEmpty_def textPresent_def)
  from setSelectedRoute_no_debounce
    [where env = "sampleEnv 1100" and index = 0 and state = secondSelected and t = 1099] h
  show ?thesis by (simp add: sampleEnv_def)
qed

text \<open>
  Claim C8, as stated: a target route whose step list is empty is rejected and the state
  stays as it is. The second route of the catalog has an empty step list, and selecting
  it sets the selected index and the time of the switch.
\<close>

theorem select_accepts_empty_step_list:
  "steps (availableRoutes routesLoaded ! 1) = Some [] \<and>
   selectedRouteIndex routesLoaded = 0 \<and> lastRouteSwitch routesLoaded = 0 \<and>
   selectedRouteIndex (navigationReducer (sampleEnv 1000) routesLoaded (SetSelectedRoute 1)) = 1 \<and>
   lastRouteSwitch (navigationReducer (sampleEnv 1000) routesLoaded (SetSelectedRoute 1)) = 1000"
  by (simp add: routesLoaded_fields setSelectedRoute_def Let_def sampleRoute_def nonEmpty_def
      textPresent_def sampleEnv_def)

text \<open>
  Claim C8, amended. \<open>setSelectedRoute\<close> accepts an index exactly when it is not
  negative, less than the number of routes, a whole number, and the route at that index
  has a non-empty polyline, a step list (which may be empty) and non-empty distance and
  duration texts. A rejected select leaves the whole state as it is; an accepted one
  sets the selected index to the given index and \<open>lastRouteSwitch\<close> to the clock
  reading and changes nothing else. The checks are made in this order, each with its
  own message: negative index; no routes, or index not below their number; index not a
  whole number; polyline or step list; texts.
\<close>

theorem setSelectedRoute_validation:
  "(fst (setSelectedRoute env index state) = None \<longleftrightarrow>
      0 \<le> index \<and> index < real (length (availableRoutes state)) \<and> index \<in> \<int> \<and>
      nonEmpty (polyline (availableRoutes state ! nat \<lfloor>index\<rfloor>)) \<and>
      steps (availableRoutes state ! nat \<lfloor>index\<rfloor>) \<noteq> None \<and>
      textPresent (distance (availableRoutes state ! nat \<lfloor>index\<rfloor>)) \<and>
      textPresent (duration (availableRoutes state ! nat \<lfloor>index\<rfloor>))) \<and>
   (fst (setSelectedRoute env index state) \<noteq> None \<longrightarrow>
      snd (setSelectedRoute env index state) = state) \<and>
   (fst (setSelectedRoute env index state) = None \<longrightarrow>
      snd (setSelectedRoute env index state) =
        state\<lparr>selectedRouteIndex := index, lastRouteSwitch := dateNow env\<rparr>) \<and>
   (index < 0 \<longrightarrow> fst (setSelectedRoute env index state) = Some InvalidIndex) \<and>
   (0 \<le> index \<and> real (length (availableRoutes state)) \<le> index \<longrightarrow>
      fst (setSelectedRoute env index state) =
        (if availableRoutes state = [] then Some NoRoutes else Some OutOfBounds)) \<and>
   (0 \<le> index \<and> index < real (length (availableRoutes state)) \<and> index \<notin> \<int> \<longrightarrow>
      fst (setSelectedRoute env index state) = Some UndefinedRoute) \<and>
   (0 \<le> index \<and> index < real (length (availableRoutes state)) \<and> index \<in> \<int> \<and>
    (\<not> nonEmpty (polyline (availableRoutes state ! nat \<lfloor>index\<rfloor>)) \<or>
     steps (availableRoutes state ! nat \<lfloor>index\<rfloor>) = None) \<longrightarrow>
      fst (setSelectedRoute env index state) = Some InvalidRouteData) \<and>
   (0 \<le> index \<and> index < real (length (availableRoutes state)) \<and> index \<in> \<int> \<and>
    nonEmpty (polyline (availableRoutes state ! nat \<lfloor>index\<rfloor>)) \<and>
    steps (availableRoutes state ! nat \<lfloor>index\<rfloor>) \<noteq> None \<and>
    (\<not> textPresent (distance (availableRoutes state ! nat \<lfloor>index\<rfloor>)) \<or>
     \<not> textPresent (duration (availableRoutes state ! nat \<lfloor>index\<rfloor>))) \<longrightarrow>
      fst (setSelectedRoute env index state) = Some InvalidMetrics)"
proof -
  have nonempty: "availableRoutes state \<noteq> []"
    if "0 \<le> index" "index < real (length (availableRoutes state))"
    using that by auto
  show ?thesis
    using nonempty whole_number [of index]
    by (auto simp: setSelectedRoute_def Let_def)
qed

theorem setSelectedRoute_validation_witness:
  "snd (setSelectedRoute (sampleEnv 1000) 1 routesLoaded) =
     routesLoaded\<lparr>selectedRouteIndex := 1, lastRouteSwitch := 1000\<rparr> \<and>
   setSelectedRoute (sampleEnv 1000) 2 routesLoaded = (Some OutOfBounds, routesLoaded) \<and>
   setSelectedRoute (sampleEnv 1000) (- 1) routesLoaded = (Some InvalidIndex, routesLoaded) \<and>
   setSelectedRoute (sampleEnv 1000) (1 / 2) routesLoaded = (Some UndefinedRoute, routesLoaded)"
proof -
  have half: "(1 / 2 :: real) \<notin> \<int>"
    using whole_number [of "1 / 2"] by simp
  have one: "(1 :: real) \<in> \<int>" by simp
  note inst = setSelectedRoute_validation [where env = "sampleEnv 1000" and state = routesLoaded]
  from inst [where index = 1] one
  have a: "snd (setSelectedRoute (sampleEnv 1000) 1 routesLoaded) =
     routesLoaded\<lparr>selectedRouteIndex := 1, lastRouteSwitch := 1000\<rparr>"
    by (simp add: routesLoaded_fields sampleRoute_def nonEmpty_def textPresent_def sampleEnv_def)
  from inst [where index = 2]
  have b: "setSelectedRoute (sampleEnv 1000) 2 routesLoaded = (Some OutOfBounds, routesLoaded)"
    by (simp add: routesLoaded_fields prod_eq_iff)
  from inst [where index = "- 1"]
  have c: "setSelectedRoute (sampleEnv 1000) (- 1) routesLoaded = (Some InvalidIndex, routesLoaded)"
    by (simp add: routesLoaded_fields prod_eq_iff)
  from inst [where index = "1 / 2"] half
  have d: "setSelectedRoute (sampleEnv 1000) (1 / 2) routesLoaded =
      (Some UndefinedRoute, routesLoaded)"
    by (simp add: routesLoaded_fields prod_eq_iff)
  from a b c d show ?thesis by simp
qed


end
